theory Spec2Isabelle
  imports Main "HOL-Library.Word"
begin

section \<open>Python values used by chunk.py\<close>

text \<open>
  A \<open>bytes\<close> object is a list of 8-bit words. A Python \<open>str\<close> is a sequence of
  Unicode code points, modelled as a list of naturals (an Isabelle \<open>char\<close> is only a
  byte). Python integers are unbounded: \<open>int\<close>.
\<close>

type_synonym byte = "8 word"
type_synonym bytes = "byte list"
type_synonym str = "nat list"

datatype error = UnicodeDecodeError

datatype byteorder = little | big

definition py_str :: "string \<Rightarrow> str" where
  "py_str s = map of_char s"

definition py_bytes :: "string \<Rightarrow> bytes" where
  "py_bytes s = map of_char s"

text \<open>
  Slicing \<open>xs[i:j]\<close>: a negative index counts from the end, and both indices are
  clamped to the sequence; an empty range gives the empty sequence. It never raises.
\<close>

definition slice_index :: "nat \<Rightarrow> int \<Rightarrow> nat" where
  "slice_index n i = (if i < 0 then nat (max (i + int n) 0) else min (nat i) n)"

definition py_slice :: "'a list \<Rightarrow> int \<Rightarrow> int \<Rightarrow> 'a list" where
  "py_slice xs i j =
     (let lo = slice_index (length xs) i; hi = slice_index (length xs) j
      in take (hi - lo) (drop lo xs))"

text \<open>
  \<open>bytes.decode("utf-8")\<close> in strict mode: shortest-form sequences only, no
  surrogates, nothing above U+10FFFF. Any other byte sequence raises
  \<open>UnicodeDecodeError\<close>.
\<close>

definition cont :: "byte \<Rightarrow> bool" where
  "cont b = (0x80 \<le> b \<and> b \<le> 0xBF)"

definition cbits :: "byte \<Rightarrow> nat" where
  "cbits b = unat b mod 64"

fun utf8_decode :: "bytes \<Rightarrow> error + str" where
  "utf8_decode [] = Inr []"
| "utf8_decode (b # bs) =
     (if b < 0x80 then map_sum id ((#) (unat b)) (utf8_decode bs)
      else if 0xC2 \<le> b \<and> b \<le> 0xDF then
        (case bs of
           c1 # r \<Rightarrow>
             if cont c1
             then map_sum id ((#) (unat b mod 32 * 64 + cbits c1)) (utf8_decode r)
             else Inl UnicodeDecodeError
         | _ \<Rightarrow> Inl UnicodeDecodeError)
      else if 0xE0 \<le> b \<and> b \<le> 0xEF then
        (case bs of
           c1 # c2 # r \<Rightarrow>
             if (if b = 0xE0 then 0xA0 else 0x80) \<le> c1
                \<and> c1 \<le> (if b = 0xED then 0x9F else 0xBF) \<and> cont c2
             then map_sum id ((#) (unat b mod 16 * 4096 + cbits c1 * 64 + cbits c2))
                    (utf8_decode r)
             else Inl UnicodeDecodeError
         | _ \<Rightarrow> Inl UnicodeDecodeError)
      else if 0xF0 \<le> b \<and> b \<le> 0xF4 then
        (case bs of
           c1 # c2 # c3 # r \<Rightarrow>
             if (if b = 0xF0 then 0x90 else 0x80) \<le> c1
                \<and> c1 \<le> (if b = 0xF4 then 0x8F else 0xBF) \<and> cont c2 \<and> cont c3
             then map_sum id
                    ((#) (unat b mod 8 * 262144 + cbits c1 * 4096 + cbits c2 * 64 + cbits c3))
                    (utf8_decode r)
             else Inl UnicodeDecodeError
         | _ \<Rightarrow> Inl UnicodeDecodeError)
      else Inl UnicodeDecodeError)"

text \<open>\<open>int.from_bytes(bs, byteorder=..., signed=...)\<close>; the empty sequence gives 0.\<close>

fun le_value :: "bytes \<Rightarrow> int" where
  "le_value [] = 0"
| "le_value (b # bs) = uint b + 256 * le_value bs"

definition from_bytes :: "bytes \<Rightarrow> byteorder \<Rightarrow> bool \<Rightarrow> int" where
  "from_bytes bs byte_order sgnd =
     (let v = le_value (case byte_order of little \<Rightarrow> bs | big \<Rightarrow> rev bs)
      in if sgnd \<and> bs \<noteq> [] \<and> 2 ^ (8 * length bs - 1) \<le> v
         then v - 2 ^ (8 * length bs) else v)"

text \<open>
  \<open>byte_seq.find(b"\0", start, end)\<close>: the lowest index of a zero byte inside the
  slice \<open>[start:end]\<close>, or \<open>-1\<close>.
\<close>

fun index_of_zero :: "bytes \<Rightarrow> nat option" where
  "index_of_zero [] = None"
| "index_of_zero (b # bs) = (if b = 0 then Some 0 else map_option Suc (index_of_zero bs))"

definition find_zero :: "bytes \<Rightarrow> int \<Rightarrow> int \<Rightarrow> int" where
  "find_zero byte_seq start_pos end_pos =
     (let lo = slice_index (length byte_seq) start_pos;
          hi = slice_index (length byte_seq) end_pos
      in case index_of_zero (take (hi - lo) (drop lo byte_seq)) of
           None \<Rightarrow> - 1
         | Some k \<Rightarrow> int (lo + k))"

section \<open>ChunkType and BaseChunk\<close>

datatype ChunkType =
  UNKNOWN | RIFF | STANDARD_FMT | NON_STANDARD_FMT | EXTENSIBLE_FMT | DATA | BEXT

text \<open>
  The attribute \<open>chunk_type\<close> holds whatever \<open>get_chunk_type\<close> returned, and that
  method can fall off its last \<open>elif\<close> and return Python's \<open>None\<close>; hence an option.
\<close>

record BaseChunk =
  chunk_name :: str
  chunk_type :: "ChunkType option"
  chunk_size :: int
  valid :: bool

definition BaseChunk_init :: BaseChunk where
  "BaseChunk_init =
     \<lparr>chunk_name = [], chunk_type = Some UNKNOWN, chunk_size = 0, valid = False\<rparr>"

definition parse_int :: "bytes \<Rightarrow> int \<Rightarrow> int \<Rightarrow> byteorder \<Rightarrow> bool \<Rightarrow> int" where
  "parse_int byte_seq start_pos length' byte_order sgnd =
     from_bytes (py_slice byte_seq start_pos length') byte_order sgnd"

definition parse_str :: "bytes \<Rightarrow> int \<Rightarrow> int \<Rightarrow> str" where
  "parse_str byte_seq start_pos end_pos =
     (let end_pos1 = (if end_pos = - 1 then int (length byte_seq) else end_pos);
          idx = find_zero byte_seq start_pos end_pos1;
          end_flag_idx = (if idx = - 1 then end_pos1 else idx)
      in if start_pos \<ge> end_flag_idx then []
         else (case utf8_decode (py_slice byte_seq start_pos end_flag_idx) of
                 Inl e \<Rightarrow> []
               | Inr s \<Rightarrow> s))"

definition get_chunk_name :: "bytes \<Rightarrow> int \<Rightarrow> error + str" where
  "get_chunk_name byte_seq chunk_start_pos =
     (if chunk_start_pos + 4 > int (length byte_seq) then Inr []
      else utf8_decode (py_slice byte_seq chunk_start_pos (chunk_start_pos + 4)))"

definition get_chunk_size :: "bytes \<Rightarrow> int \<Rightarrow> int" where
  "get_chunk_size byte_seq chunk_start_pos =
     (if chunk_start_pos + 8 > int (length byte_seq) then - 1
      else parse_int byte_seq (chunk_start_pos + 4) (chunk_start_pos + 8) little False)"

definition get_chunk_type :: "bytes \<Rightarrow> int \<Rightarrow> error + ChunkType option" where
  "get_chunk_type byte_seq chunk_start_pos =
     (if chunk_start_pos + 4 > int (length byte_seq) then Inr (Some UNKNOWN)
      else
        (case get_chunk_name byte_seq chunk_start_pos of
           Inl e \<Rightarrow> Inl e
         | Inr name \<Rightarrow>
             Inr (if name = py_str ''RIFF'' then Some RIFF
                  else if name = py_str ''fmt '' then
                    (let size = get_chunk_size byte_seq chunk_start_pos
                     in if size = 16 then Some STANDARD_FMT
                        else if size = 18 then Some NON_STANDARD_FMT
                        else if size = 40 then Some EXTENSIBLE_FMT
                        else Some UNKNOWN)
                  else if name = py_str ''data'' then Some DATA
                  else if name = py_str ''bext'' then Some BEXT
                  else None)))"

definition BaseChunk_parse ::
  "'a BaseChunk_scheme \<Rightarrow> bytes \<Rightarrow> int \<Rightarrow> error + 'a BaseChunk_scheme" where
  "BaseChunk_parse self byte_seq chunk_start_pos =
     (case get_chunk_name byte_seq chunk_start_pos of
        Inl e \<Rightarrow> Inl e
      | Inr name \<Rightarrow>
          (case get_chunk_type byte_seq chunk_start_pos of
             Inl e \<Rightarrow> Inl e
           | Inr ty \<Rightarrow>
               Inr (self\<lparr>chunk_name := name, chunk_type := ty,
                         chunk_size := get_chunk_size byte_seq chunk_start_pos\<rparr>)))"

definition get_bytes ::
  "'a BaseChunk_scheme \<Rightarrow> bytes \<Rightarrow> int \<Rightarrow> int \<Rightarrow> bool
     \<Rightarrow> 'a BaseChunk_scheme \<times> bytes \<times> int" where
  "get_bytes self byte_data start_pos length' valid_check =
     (if start_pos + length' > int (length byte_data)
      then (self\<lparr>valid := (\<not> valid_check) \<and> valid self\<rparr>, [], start_pos + length')
      else (self, py_slice byte_data start_pos (start_pos + length'), start_pos + length'))"

section \<open>RiffChunk\<close>

record RiffChunk = BaseChunk +
  wave_symbol :: str

definition RiffChunk_init :: RiffChunk where
  "RiffChunk_init =
     \<lparr>chunk_name = [], chunk_type = Some UNKNOWN, chunk_size = 0, valid = False,
      wave_symbol = []\<rparr>"

definition RiffChunk_parse :: "RiffChunk \<Rightarrow> bytes \<Rightarrow> int \<Rightarrow> error + RiffChunk" where
  "RiffChunk_parse self byte_seq chunk_start_pos =
     (case BaseChunk_parse self byte_seq chunk_start_pos of
        Inl e \<Rightarrow> Inl e
      | Inr self \<Rightarrow>
          (let self = (if chunk_name self \<noteq> py_str ''RIFF'' then self\<lparr>valid := False\<rparr> else self);
               self = (if chunk_type self \<noteq> Some RIFF then self\<lparr>valid := False\<rparr> else self);
               self = (if chunk_size self \<noteq> 4 then self\<lparr>valid := False\<rparr> else self);
               (self, wave_symbol_bytes, _) = get_bytes self byte_seq (chunk_start_pos + 8) 4 True;
               self = self\<lparr>wave_symbol := parse_str wave_symbol_bytes 0 (- 1)\<rparr>;
               self = (if wave_symbol self \<noteq> py_str ''WAVE'' then self\<lparr>valid := False\<rparr> else self)
           in Inr self))"

section \<open>The format chunks\<close>

datatype FormatTag = FT_UNKNOWN | PCM | IEEE_FLOAT | ALAW | MULAW | EXTENSIBLE

text \<open>
  The private attributes \<open>_channels\<close>, \<open>_sample_rate\<close>, ... hold the raw bytes; they
  are the \<open>raw_\<close> fields here, and the properties of the same name decode them.
\<close>

record BaseFormatChunk = BaseChunk +
  format_tag :: FormatTag
  raw_channels :: bytes
  raw_sample_rate :: bytes
  raw_byte_rate :: bytes
  raw_block_align :: bytes
  raw_bits_per_sample :: bytes

definition BaseFormatChunk_init :: BaseFormatChunk where
  "BaseFormatChunk_init =
     \<lparr>chunk_name = [], chunk_type = Some UNKNOWN, chunk_size = 0, valid = False,
      format_tag = FT_UNKNOWN, raw_channels = [], raw_sample_rate = [], raw_byte_rate = [],
      raw_block_align = [], raw_bits_per_sample = []\<rparr>"

definition get_format_tag :: "bytes \<Rightarrow> FormatTag" where
  "get_format_tag byte_data =
     (let format_tag_int = parse_int byte_data 0 2 little False
      in if format_tag_int = 1 then PCM
         else if format_tag_int = 3 then IEEE_FLOAT
         else if format_tag_int = 6 then ALAW
         else if format_tag_int = 7 then MULAW
         else if format_tag_int = 0xFFFE then EXTENSIBLE
         else FT_UNKNOWN)"

definition BaseFormatChunk_parse ::
  "'a BaseFormatChunk_scheme \<Rightarrow> bytes \<Rightarrow> int \<Rightarrow> error + 'a BaseFormatChunk_scheme" where
  "BaseFormatChunk_parse self byte_seq chunk_start_pos =
     (case BaseChunk_parse self byte_seq chunk_start_pos of
        Inl e \<Rightarrow> Inl e
      | Inr self \<Rightarrow>
          (let self = (if chunk_name self \<noteq> py_str ''fmt '' then self\<lparr>valid := False\<rparr> else self);
               start_pos = chunk_start_pos + 8;
               (self, format_tag_bytes, start_pos) = get_bytes self byte_seq start_pos 2 True;
               self = self\<lparr>format_tag := get_format_tag format_tag_bytes\<rparr>;
               (self, b, start_pos) = get_bytes self byte_seq start_pos 2 True;
               self = self\<lparr>raw_channels := b\<rparr>;
               (self, b, start_pos) = get_bytes self byte_seq start_pos 4 True;
               self = self\<lparr>raw_sample_rate := b\<rparr>;
               (self, b, start_pos) = get_bytes self byte_seq start_pos 4 True;
               self = self\<lparr>raw_byte_rate := b\<rparr>;
               (self, b, start_pos) = get_bytes self byte_seq start_pos 2 True;
               self = self\<lparr>raw_block_align := b\<rparr>;
               (self, b, start_pos) = get_bytes self byte_seq start_pos 2 True;
               self = self\<lparr>raw_bits_per_sample := b\<rparr>
           in Inr self))"

definition channels :: "'a BaseFormatChunk_scheme \<Rightarrow> int" where
  "channels self = parse_int (raw_channels self) 0 2 little False"

definition sample_rate :: "'a BaseFormatChunk_scheme \<Rightarrow> int" where
  "sample_rate self = parse_int (raw_sample_rate self) 0 4 little False"

definition byte_rate :: "'a BaseFormatChunk_scheme \<Rightarrow> int" where
  "byte_rate self = parse_int (raw_byte_rate self) 0 4 little False"

definition block_align :: "'a BaseFormatChunk_scheme \<Rightarrow> int" where
  "block_align self = parse_int (raw_block_align self) 0 2 little False"

definition bits_per_sample :: "'a BaseFormatChunk_scheme \<Rightarrow> int" where
  "bits_per_sample self = parse_int (raw_bits_per_sample self) 0 2 little False"

text \<open>\<open>StandardPCMFormatChunk\<close> adds no attribute to \<open>BaseFormatChunk\<close>.\<close>

definition StandardPCMFormatChunk_init :: BaseFormatChunk where
  "StandardPCMFormatChunk_init = BaseFormatChunk_init"

definition StandardPCMFormatChunk_parse ::
  "BaseFormatChunk \<Rightarrow> bytes \<Rightarrow> int \<Rightarrow> error + BaseFormatChunk" where
  "StandardPCMFormatChunk_parse self byte_seq chunk_start_pos =
     (case BaseFormatChunk_parse self byte_seq chunk_start_pos of
        Inl e \<Rightarrow> Inl e
      | Inr self \<Rightarrow>
          (let self = (if chunk_type self \<noteq> Some STANDARD_FMT then self\<lparr>valid := False\<rparr> else self);
               self = (if chunk_size self \<noteq> 16 then self\<lparr>valid := False\<rparr> else self)
           in Inr self))"

record NonPCMFormatChunk = BaseFormatChunk +
  raw_extension_size :: bytes

definition NonPCMFormatChunk_init :: NonPCMFormatChunk where
  "NonPCMFormatChunk_init =
     \<lparr>chunk_name = [], chunk_type = Some UNKNOWN, chunk_size = 0, valid = False,
      format_tag = FT_UNKNOWN, raw_channels = [], raw_sample_rate = [], raw_byte_rate = [],
      raw_block_align = [], raw_bits_per_sample = [], raw_extension_size = []\<rparr>"

definition NonPCMFormatChunk_parse ::
  "NonPCMFormatChunk \<Rightarrow> bytes \<Rightarrow> int \<Rightarrow> error + NonPCMFormatChunk" where
  "NonPCMFormatChunk_parse self byte_seq chunk_start_pos =
     (case BaseFormatChunk_parse self byte_seq chunk_start_pos of
        Inl e \<Rightarrow> Inl e
      | Inr self \<Rightarrow>
          (let self = (if chunk_type self \<noteq> Some NON_STANDARD_FMT then self\<lparr>valid := False\<rparr> else self);
               self = (if chunk_size self \<noteq> 18 then self\<lparr>valid := False\<rparr> else self);
               (self, b, _) = get_bytes self byte_seq (chunk_start_pos + 24) 2 True;
               self = self\<lparr>raw_extension_size := b\<rparr>
           in Inr self))"

definition extension_size :: "NonPCMFormatChunk \<Rightarrow> int" where
  "extension_size self = parse_int (raw_extension_size self) 0 2 little False"

text \<open>
  \<open>ExtensibleFormatChunk\<close> has an \<open>_extension_size\<close> of its own; its field and
  property carry the prefix \<open>x_\<close> to keep them apart from those of \<open>NonPCMFormatChunk\<close>.
\<close>

record ExtensibleFormatChunk = BaseFormatChunk +
  raw_x_extension_size :: bytes
  raw_valid_bits_per_sample :: bytes
  raw_channel_mask :: bytes
  sub_format :: bytes

definition ExtensibleFormatChunk_init :: ExtensibleFormatChunk where
  "ExtensibleFormatChunk_init =
     \<lparr>chunk_name = [], chunk_type = Some UNKNOWN, chunk_size = 0, valid = False,
      format_tag = FT_UNKNOWN, raw_channels = [], raw_sample_rate = [], raw_byte_rate = [],
      raw_block_align = [], raw_bits_per_sample = [], raw_x_extension_size = [],
      raw_valid_bits_per_sample = [], raw_channel_mask = [], sub_format = []\<rparr>"

definition ExtensibleFormatChunk_parse ::
  "ExtensibleFormatChunk \<Rightarrow> bytes \<Rightarrow> int \<Rightarrow> error + ExtensibleFormatChunk" where
  "ExtensibleFormatChunk_parse self byte_seq chunk_start_pos =
     (case BaseFormatChunk_parse self byte_seq chunk_start_pos of
        Inl e \<Rightarrow> Inl e
      | Inr self \<Rightarrow>
          (let self = (if chunk_type self \<noteq> Some EXTENSIBLE_FMT then self\<lparr>valid := False\<rparr> else self);
               self = (if chunk_size self \<noteq> 40 then self\<lparr>valid := False\<rparr> else self);
               start_pos = chunk_start_pos + 24;
               (self, b, start_pos) = get_bytes self byte_seq start_pos 2 True;
               self = self\<lparr>raw_x_extension_size := b\<rparr>;
               (self, b, start_pos) = get_bytes self byte_seq start_pos 2 True;
               self = self\<lparr>raw_valid_bits_per_sample := b\<rparr>;
               (self, b, start_pos) = get_bytes self byte_seq start_pos 4 True;
               self = self\<lparr>raw_channel_mask := b\<rparr>;
               (self, b, start_pos) = get_bytes self byte_seq start_pos 16 True;
               self = self\<lparr>sub_format := b\<rparr>
           in Inr self))"

definition x_extension_size :: "ExtensibleFormatChunk \<Rightarrow> int" where
  "x_extension_size self = parse_int (raw_x_extension_size self) 0 2 little False"

definition valid_bits_per_sample :: "ExtensibleFormatChunk \<Rightarrow> int" where
  "valid_bits_per_sample self = parse_int (raw_valid_bits_per_sample self) 0 2 little False"

definition channel_mask :: "ExtensibleFormatChunk \<Rightarrow> int" where
  "channel_mask self = parse_int (raw_channel_mask self) 0 4 little False"

section \<open>DataChunk and FactChunk\<close>

record DataChunk = BaseChunk +
  data :: bytes

definition DataChunk_init :: DataChunk where
  "DataChunk_init =
     \<lparr>chunk_name = [], chunk_type = Some UNKNOWN, chunk_size = 0, valid = False, data = []\<rparr>"

definition DataChunk_parse :: "DataChunk \<Rightarrow> bytes \<Rightarrow> int \<Rightarrow> error + DataChunk" where
  "DataChunk_parse self byte_seq chunk_start_pos =
     (case BaseChunk_parse self byte_seq chunk_start_pos of
        Inl e \<Rightarrow> Inl e
      | Inr self \<Rightarrow>
          (let self = (if chunk_name self \<noteq> py_str ''data'' then self\<lparr>valid := False\<rparr> else self);
               self = (if chunk_type self \<noteq> Some DATA then self\<lparr>valid := False\<rparr> else self);
               (self, b, _) = get_bytes self byte_seq (chunk_start_pos + 8) (chunk_size self) True;
               self = self\<lparr>data := b\<rparr>
           in Inr self))"

record FactChunk = BaseChunk +
  raw_sample_length :: bytes

definition FactChunk_init :: FactChunk where
  "FactChunk_init =
     \<lparr>chunk_name = [], chunk_type = Some UNKNOWN, chunk_size = 0, valid = False,
      raw_sample_length = []\<rparr>"

definition FactChunk_parse :: "FactChunk \<Rightarrow> bytes \<Rightarrow> int \<Rightarrow> error + FactChunk" where
  "FactChunk_parse self byte_seq chunk_start_pos =
     (case BaseChunk_parse self byte_seq chunk_start_pos of
        Inl e \<Rightarrow> Inl e
      | Inr self \<Rightarrow>
          (let self = (if chunk_name self \<noteq> py_str ''fact'' then self\<lparr>valid := False\<rparr> else self);
               self = (if chunk_type self \<noteq> Some UNKNOWN then self\<lparr>valid := False\<rparr> else self);
               self = (if chunk_size self \<noteq> 4 then self\<lparr>valid := False\<rparr> else self);
               (self, b, _) = get_bytes self byte_seq (chunk_start_pos + 8) 4 True;
               self = self\<lparr>raw_sample_length := b\<rparr>
           in Inr self))"

definition sample_length :: "FactChunk \<Rightarrow> int" where
  "sample_length self = parse_int (raw_sample_length self) 0 4 little False"

section \<open>BextChunk\<close>

record BextChunk = BaseChunk +
  raw_description :: bytes
  raw_originator :: bytes
  raw_originator_reference :: bytes
  raw_originator_date :: bytes
  raw_originator_time :: bytes
  raw_align :: bytes
  raw_time_reference_low :: bytes
  raw_time_reference_high :: bytes
  raw_version :: bytes
  umid :: bytes
  raw_loudness_value :: bytes
  raw_loudness_range :: bytes
  raw_max_true_peak_level :: bytes
  raw_max_momentary_loudness :: bytes
  raw_max_short_term_loudness :: bytes
  reserved :: bytes

definition BextChunk_init :: BextChunk where
  "BextChunk_init =
     \<lparr>chunk_name = [], chunk_type = Some UNKNOWN, chunk_size = 0, valid = False,
      raw_description = [], raw_originator = [], raw_originator_reference = [],
      raw_originator_date = [], raw_originator_time = [], raw_align = [],
      raw_time_reference_low = [], raw_time_reference_high = [], raw_version = [],
      umid = [], raw_loudness_value = [], raw_loudness_range = [],
      raw_max_true_peak_level = [], raw_max_momentary_loudness = [],
      raw_max_short_term_loudness = [], reserved = []\<rparr>"

definition BextChunk_parse :: "BextChunk \<Rightarrow> bytes \<Rightarrow> int \<Rightarrow> error + BextChunk" where
  "BextChunk_parse self byte_seq chunk_start_pos =
     (case BaseChunk_parse self byte_seq chunk_start_pos of
        Inl e \<Rightarrow> Inl e
      | Inr self \<Rightarrow>
          (let self = (if chunk_name self \<noteq> py_str ''bext'' then self\<lparr>valid := False\<rparr> else self);
               self = (if chunk_type self \<noteq> Some BEXT then self\<lparr>valid := False\<rparr> else self);
               start_pos = chunk_start_pos + 8;
               (self, b, start_pos) = get_bytes self byte_seq start_pos 256 True;
               self = self\<lparr>raw_description := b\<rparr>;
               (self, b, start_pos) = get_bytes self byte_seq start_pos 32 True;
               self = self\<lparr>raw_originator := b\<rparr>;
               (self, b, start_pos) = get_bytes self byte_seq start_pos 32 True;
               self = self\<lparr>raw_originator_reference := b\<rparr>;
               (self, b, start_pos) = get_bytes self byte_seq start_pos 10 True;
               self = self\<lparr>raw_originator_date := b\<rparr>;
               (self, b, start_pos) = get_bytes self byte_seq start_pos 8 True;
               self = self\<lparr>raw_originator_time := b\<rparr>;
               (self, b, start_pos) = get_bytes self byte_seq start_pos 2 True;
               self = self\<lparr>raw_align := b\<rparr>;
               (self, b, start_pos) = get_bytes self byte_seq start_pos 4 True;
               self = self\<lparr>raw_time_reference_low := b\<rparr>;
               (self, b, start_pos) = get_bytes self byte_seq start_pos 4 True;
               self = self\<lparr>raw_time_reference_high := b\<rparr>;
               (self, b, start_pos) = get_bytes self byte_seq start_pos 1 False;
               self = self\<lparr>raw_version := b\<rparr>;
               (self, b, start_pos) = get_bytes self byte_seq start_pos 64 False;
               self = self\<lparr>umid := b\<rparr>;
               (self, b, start_pos) = get_bytes self byte_seq start_pos 2 False;
               self = self\<lparr>raw_loudness_value := b\<rparr>;
               (self, b, start_pos) = get_bytes self byte_seq start_pos 2 False;
               self = self\<lparr>raw_loudness_range := b\<rparr>;
               (self, b, start_pos) = get_bytes self byte_seq start_pos 2 False;
               self = self\<lparr>raw_max_true_peak_level := b\<rparr>;
               (self, b, start_pos) = get_bytes self byte_seq start_pos 2 False;
               self = self\<lparr>raw_max_momentary_loudness := b\<rparr>;
               (self, b, start_pos) = get_bytes self byte_seq start_pos 2 False;
               self = self\<lparr>raw_max_short_term_loudness := b\<rparr>;
               (self, b, start_pos) = get_bytes self byte_seq start_pos 180 False;
               self = self\<lparr>reserved := b\<rparr>
           in Inr self))"

definition version :: "BextChunk \<Rightarrow> int" where
  "version self = parse_int (raw_version self) 0 1 little False"

definition loudness_value :: "BextChunk \<Rightarrow> int" where
  "loudness_value self = parse_int (raw_loudness_value self) 0 2 little False"

section \<open>Shared lemmas\<close>

text \<open>
  \<open>eval_defs\<close> are the equations that evaluate a decoder on a concrete buffer.
  \<open>get_bytes_eq\<close> states \<open>get_bytes\<close> as one tuple: the flag survives a read exactly
  when it was set before and the read either fits the buffer or is not checked.
\<close>

lemmas eval_defs = BaseChunk_parse_def get_chunk_name_def get_chunk_type_def
     get_chunk_size_def get_bytes_def parse_int_def parse_str_def py_slice_def slice_index_def
     py_str_def py_bytes_def from_bytes_def find_zero_def Let_def cont_def cbits_def

lemma get_bytes_eq:
  "get_bytes self bs p l vc =
     (self\<lparr>valid := valid self \<and> (p + l \<le> int (length bs) \<or> \<not> vc)\<rparr>,
      (if p + l > int (length bs) then [] else py_slice bs p (p + l)), p + l)"
proof (cases "p + l > int (length bs)")
  case True
  then show ?thesis by (simp add: get_bytes_def conj_commute)
next
  case False
  then show ?thesis by (simp add: get_bytes_def)
qed

lemma invalidate_if:
  "(if c then self\<lparr>valid := False\<rparr> else self) = self\<lparr>valid := valid self \<and> \<not> c\<rparr>"
  by (cases c) simp_all

lemma BaseChunk_parse_valid:
  "BaseChunk_parse self bs pos = Inr c \<Longrightarrow> valid c = valid self"
  by (auto simp: BaseChunk_parse_def split: sum.splits)

lemma RiffChunk_parse_mono:
  "RiffChunk_parse self bs pos = Inr c \<Longrightarrow> valid c \<Longrightarrow> valid self"
  by (auto simp: RiffChunk_parse_def Let_def get_bytes_eq invalidate_if
           split: sum.splits dest: BaseChunk_parse_valid)

lemma BaseFormatChunk_parse_mono:
  "BaseFormatChunk_parse self bs pos = Inr c \<Longrightarrow> valid c \<Longrightarrow> valid self"
  by (auto simp: BaseFormatChunk_parse_def Let_def get_bytes_eq invalidate_if
           split: sum.splits dest: BaseChunk_parse_valid)

lemma StandardPCMFormatChunk_parse_mono:
  "StandardPCMFormatChunk_parse self bs pos = Inr c \<Longrightarrow> valid c \<Longrightarrow> valid self"
  by (auto simp: StandardPCMFormatChunk_parse_def Let_def invalidate_if
           split: sum.splits dest: BaseFormatChunk_parse_mono)

lemma NonPCMFormatChunk_parse_mono:
  "NonPCMFormatChunk_parse self bs pos = Inr c \<Longrightarrow> valid c \<Longrightarrow> valid self"
  by (auto simp: NonPCMFormatChunk_parse_def Let_def get_bytes_eq invalidate_if
           split: sum.splits dest: BaseFormatChunk_parse_mono)

lemma ExtensibleFormatChunk_parse_mono:
  "ExtensibleFormatChunk_parse self bs pos = Inr c \<Longrightarrow> valid c \<Longrightarrow> valid self"
  by (auto simp: ExtensibleFormatChunk_parse_def Let_def get_bytes_eq invalidate_if
           split: sum.splits dest: BaseFormatChunk_parse_mono)

lemma DataChunk_parse_mono:
  "DataChunk_parse self bs pos = Inr c \<Longrightarrow> valid c \<Longrightarrow> valid self"
  by (auto simp: DataChunk_parse_def Let_def get_bytes_eq invalidate_if
           split: sum.splits dest: BaseChunk_parse_valid)

lemma FactChunk_parse_mono:
  "FactChunk_parse self bs pos = Inr c \<Longrightarrow> valid c \<Longrightarrow> valid self"
  by (auto simp: FactChunk_parse_def Let_def get_bytes_eq invalidate_if
           split: sum.splits dest: BaseChunk_parse_valid)

lemma BextChunk_parse_valid:
  "BextChunk_parse self bs pos = Inr c \<Longrightarrow>
     valid c = (valid self \<and> chunk_name c = py_str ''bext'' \<and> chunk_type c = Some BEXT
                \<and> pos + 356 \<le> int (length bs))"
proof -
  assume a: "BextChunk_parse self bs pos = Inr c"
  then obtain s0 where s0: "BaseChunk_parse self bs pos = Inr s0"
    by (auto simp: BextChunk_parse_def split: sum.splits)
  have v0: "valid s0 = valid self" using s0 by (rule BaseChunk_parse_valid)
  from a s0 show ?thesis
    unfolding BextChunk_parse_def
    by (auto simp: Let_def get_bytes_eq invalidate_if v0)
qed

lemma not_valid_sum: "(\<And>c. r = Inr c \<Longrightarrow> \<not> valid c) \<Longrightarrow> map_sum id valid r \<noteq> Inr True"
  by (cases r) auto

lemma parse_int_reads_to_end_index:
  "0 \<le> start_pos \<Longrightarrow> 0 \<le> length' \<Longrightarrow>
   parse_int byte_seq start_pos length' byte_order sgnd =
     from_bytes (take (nat length' - nat start_pos) (drop (nat start_pos) byte_seq))
       byte_order sgnd"
  by (simp add: parse_int_def py_slice_def slice_index_def Let_def min_def)

section \<open>The validity flag\<close>

text \<open>
  Claim C1: for every chunk record the validity flag starts true at the beginning of a
  decode, is only ever driven from true to false by a violated check, is never set back
  to true, and a decode with no violated check leaves it true.

  The constructor sets \<open>valid = False\<close>, and every assignment to the flag in the file
  either stores \<open>False\<close> or conjoins the old value. So the flag is \<open>False\<close> before and
  after every decode of a freshly constructed record, whatever the buffer: here for a
  well-formed \<open>data\<close> chunk of two payload bytes, where no check is violated, and then
  for every class, buffer and offset.
\<close>

theorem valid_flag_starts_false_and_stays_false:
  "valid DataChunk_init = False
   \<and> DataChunk_parse DataChunk_init (py_bytes ''data'' @ [2, 0, 0, 0] @ [1, 2]) 0 =
       Inr \<lparr>chunk_name = py_str ''data'', chunk_type = Some DATA, chunk_size = 2,
            valid = False, data = [1, 2]\<rparr>
   \<and> map_sum id valid (BaseChunk_parse BaseChunk_init bs pos) \<noteq> Inr True
   \<and> map_sum id valid (RiffChunk_parse RiffChunk_init bs pos) \<noteq> Inr True
   \<and> map_sum id valid (StandardPCMFormatChunk_parse StandardPCMFormatChunk_init bs pos) \<noteq> Inr True
   \<and> map_sum id valid (NonPCMFormatChunk_parse NonPCMFormatChunk_init bs pos) \<noteq> Inr True
   \<and> map_sum id valid (ExtensibleFormatChunk_parse ExtensibleFormatChunk_init bs pos) \<noteq> Inr True
   \<and> map_sum id valid (DataChunk_parse DataChunk_init bs pos) \<noteq> Inr True
   \<and> map_sum id valid (FactChunk_parse FactChunk_init bs pos) \<noteq> Inr True
   \<and> map_sum id valid (BextChunk_parse BextChunk_init bs pos) \<noteq> Inr True"
proof -
  have i: "valid DataChunk_init = False" by (simp add: DataChunk_init_def)
  have e: "DataChunk_parse DataChunk_init (py_bytes ''data'' @ [2, 0, 0, 0] @ [1, 2]) 0 =
       Inr \<lparr>chunk_name = py_str ''data'', chunk_type = Some DATA, chunk_size = 2,
            valid = False, data = [1, 2]\<rparr>"
    by (simp add: DataChunk_parse_def DataChunk_init_def eval_defs)
  have a: "map_sum id valid (BaseChunk_parse BaseChunk_init bs pos) \<noteq> Inr True"
    by (rule not_valid_sum) (auto dest: BaseChunk_parse_valid simp: BaseChunk_init_def)
  have r: "map_sum id valid (RiffChunk_parse RiffChunk_init bs pos) \<noteq> Inr True"
    by (rule not_valid_sum) (auto dest: RiffChunk_parse_mono simp: RiffChunk_init_def)
  have s: "map_sum id valid (StandardPCMFormatChunk_parse StandardPCMFormatChunk_init bs pos) \<noteq> Inr True"
    by (rule not_valid_sum)
       (auto dest: StandardPCMFormatChunk_parse_mono
             simp: StandardPCMFormatChunk_init_def BaseFormatChunk_init_def)
  have n: "map_sum id valid (NonPCMFormatChunk_parse NonPCMFormatChunk_init bs pos) \<noteq> Inr True"
    by (rule not_valid_sum) (auto dest: NonPCMFormatChunk_parse_mono simp: NonPCMFormatChunk_init_def)
  have x: "map_sum id valid (ExtensibleFormatChunk_parse ExtensibleFormatChunk_init bs pos) \<noteq> Inr True"
    by (rule not_valid_sum)
       (auto dest: ExtensibleFormatChunk_parse_mono simp: ExtensibleFormatChunk_init_def)
  have d: "map_sum id valid (DataChunk_parse DataChunk_init bs pos) \<noteq> Inr True"
    by (rule not_valid_sum) (auto dest: DataChunk_parse_mono simp: DataChunk_init_def)
  have f: "map_sum id valid (FactChunk_parse FactChunk_init bs pos) \<noteq> Inr True"
    by (rule not_valid_sum) (auto dest: FactChunk_parse_mono simp: FactChunk_init_def)
  have b: "map_sum id valid (BextChunk_parse BextChunk_init bs pos) \<noteq> Inr True"
    by (rule not_valid_sum) (auto dest: BextChunk_parse_valid simp: BextChunk_init_def)
  from i e a r s n x d f b show ?thesis by blast
qed

section \<open>RiffChunk on the buffer "RIFF", 4, "WAVE"\<close>

text \<open>
  Claim C2: on the 12-byte buffer \<open>"RIFF" + u32(4) + "WAVE"\<close>, \<open>RiffChunk.parse\<close> at
  offset 0 gives a record with the flag true and \<open>wave_symbol = "WAVE"\<close>; with other
  trailing bytes the flag is false and the other fields are unchanged.

  Every field is decoded as the claim says and every check passes, but the flag of the
  result is \<open>False\<close>: it was \<open>False\<close> from the constructor on.
\<close>

theorem riff_wave_decode_is_invalid:
  "RiffChunk_parse RiffChunk_init (py_bytes ''RIFF'' @ [4, 0, 0, 0] @ py_bytes ''WAVE'') 0 =
     Inr \<lparr>chunk_name = py_str ''RIFF'', chunk_type = Some RIFF, chunk_size = 4,
          valid = False, wave_symbol = py_str ''WAVE''\<rparr>"
  by (simp add: RiffChunk_parse_def RiffChunk_init_def eval_defs)

section \<open>Names that are not UTF-8\<close>

text \<open>
  Claim C3: for every buffer and offset, every decoder's \<open>parse\<close>, and the header
  readers it uses, return normally and never raise, also when the four name bytes are
  not valid UTF-8.

  \<open>get_chunk_name\<close> decodes the four bytes with no handler around the call, so a name
  that is not UTF-8 raises \<open>UnicodeDecodeError\<close> out of \<open>get_chunk_name\<close>,
  \<open>get_chunk_type\<close> and every \<open>parse\<close>. \<open>parse_str\<close> in the same class catches the
  same error and returns the empty string.
\<close>

theorem get_chunk_name_raises_on_invalid_utf8:
  "get_chunk_name [0xFF, 0xFE, 0xFD, 0xFC] 0 = Inl UnicodeDecodeError
   \<and> get_chunk_type [0xFF, 0xFE, 0xFD, 0xFC] 0 = Inl UnicodeDecodeError
   \<and> RiffChunk_parse RiffChunk_init [0xFF, 0xFE, 0xFD, 0xFC] 0 = Inl UnicodeDecodeError
   \<and> DataChunk_parse DataChunk_init [0xFF, 0xFE, 0xFD, 0xFC] 0 = Inl UnicodeDecodeError
   \<and> parse_str [0xFF, 0xFE, 0xFD, 0xFC] 0 (- 1) = []"
  by (simp add: RiffChunk_parse_def DataChunk_parse_def eval_defs)

section \<open>Names outside the four known ones\<close>

text \<open>
  Claim C4: for every buffer with at least 8 bytes at the offset whose name is none of
  \<open>"RIFF"\<close>, \<open>"fmt "\<close>, \<open>"data"\<close>, \<open>"bext"\<close> (for example \<open>"fact"\<close>),
  \<open>get_chunk_type\<close> returns \<open>ChunkType.UNKNOWN\<close>.

  The \<open>if\<close>/\<open>elif\<close> chain of \<open>get_chunk_type\<close> has no final \<open>else\<close>: for such a name
  the method falls off its end and returns \<open>None\<close>, which is not \<open>ChunkType.UNKNOWN\<close>.
  \<open>FactChunk.parse\<close> compares the tag with \<open>ChunkType.UNKNOWN\<close> and so clears the flag
  of every \<open>fact\<close> chunk.
\<close>

theorem fact_name_classifies_as_None:
  "get_chunk_type (py_bytes ''fact'' @ [4, 0, 0, 0] @ [1, 0, 0, 0]) 0 = Inr None
   \<and> get_chunk_type (py_bytes ''fact'' @ [4, 0, 0, 0] @ [1, 0, 0, 0]) 0 \<noteq> Inr (Some UNKNOWN)
   \<and> FactChunk_parse FactChunk_init (py_bytes ''fact'' @ [4, 0, 0, 0] @ [1, 0, 0, 0]) 0 =
       Inr \<lparr>chunk_name = py_str ''fact'', chunk_type = None, chunk_size = 4, valid = False,
            raw_sample_length = [1, 0, 0, 0]\<rparr>"
  by (simp add: FactChunk_parse_def FactChunk_init_def eval_defs)

section \<open>Required and optional fields of BextChunk\<close>

text \<open>
  Claim C5: in the \<open>bext\<close> decoder only the five loudness and peak fields and the
  180-byte reserved tail are read in optional mode; every other field, in particular
  \<open>version\<close> and \<open>umid\<close>, is required, so a buffer truncated inside \<open>version\<close> or
  \<open>umid\<close> gives a record whose flag is false.

  As amended: the eight fields from \<open>description\<close> to \<open>time_reference_high\<close>
  (356 bytes with the header) are required; \<open>version\<close>, \<open>umid\<close>, the five loudness and
  peak fields and the reserved tail are read with \<open>valid_check=False\<close>. The flag after
  \<open>parse\<close> is the flag before it, conjoined with the name being \<open>"bext"\<close>, the tag being
  \<open>BEXT\<close> and 356 bytes being present at the offset: a truncation at or after
  \<open>version\<close> leaves the flag as it was.
\<close>

theorem bext_required_fields:
  "BextChunk_parse self byte_seq chunk_start_pos = Inr c \<Longrightarrow>
     valid c = (valid self \<and> chunk_name c = py_str ''bext'' \<and> chunk_type c = Some BEXT
                \<and> chunk_start_pos + 356 \<le> int (length byte_seq))"
  by (rule BextChunk_parse_valid)

text \<open>
  The theorem at a buffer that ends right before \<open>version\<close>, decoded into a record whose
  flag was set.
\<close>

theorem bext_required_fields_witness:
  "BextChunk_parse (BextChunk_init\<lparr>valid := True\<rparr>)
     (py_bytes ''bext'' @ [0x5A, 2, 0, 0] @ replicate 348 0) 0 =
     Inr \<lparr>chunk_name = py_str ''bext'', chunk_type = Some BEXT, chunk_size = 602, valid = True,
      raw_description = replicate 256 0, raw_originator = replicate 32 0,
      raw_originator_reference = replicate 32 0,
      raw_originator_date = replicate 10 0, raw_originator_time = replicate 8 0,
      raw_align = replicate 2 0,
      raw_time_reference_low = replicate 4 0, raw_time_reference_high = replicate 4 0,
      raw_version = [],
      umid = [], raw_loudness_value = [], raw_loudness_range = [],
      raw_max_true_peak_level = [], raw_max_momentary_loudness = [],
      raw_max_short_term_loudness = [], reserved = []\<rparr>
   \<and> (True \<and> py_str ''bext'' = py_str ''bext'' \<and> Some BEXT = Some BEXT
       \<and> (0::int) + 356 \<le> int (length (py_bytes ''bext'' @ [0x5A, 2, 0, 0] @ replicate 348 (0::byte))))"
proof -
  have h: "BextChunk_parse (BextChunk_init\<lparr>valid := True\<rparr>)
     (py_bytes ''bext'' @ [0x5A, 2, 0, 0] @ replicate 348 0) 0 =
     Inr \<lparr>chunk_name = py_str ''bext'', chunk_type = Some BEXT, chunk_size = 602, valid = True,
      raw_description = replicate 256 0, raw_originator = replicate 32 0,
      raw_originator_reference = replicate 32 0,
      raw_originator_date = replicate 10 0, raw_originator_time = replicate 8 0,
      raw_align = replicate 2 0,
      raw_time_reference_low = replicate 4 0, raw_time_reference_high = replicate 4 0,
      raw_version = [],
      umid = [], raw_loudness_value = [], raw_loudness_range = [],
      raw_max_true_peak_level = [], raw_max_momentary_loudness = [],
      raw_max_short_term_loudness = [], reserved = []\<rparr>"
    by (simp add: BextChunk_parse_def BextChunk_init_def eval_defs)
  show ?thesis using h bext_required_fields [OF h] by simp
qed

text \<open>
  A record whose flag is set keeps it when the buffer ends right before \<open>version\<close>
  (348 body bytes) and when it ends inside \<open>umid\<close> (380 body bytes).
\<close>

theorem bext_version_is_optional_counterexample:
  "map_sum id valid
     (BextChunk_parse (BextChunk_init\<lparr>valid := True\<rparr>)
        (py_bytes ''bext'' @ [0x5A, 2, 0, 0] @ replicate 348 0) 0) = Inr True
   \<and> map_sum id valid
     (BextChunk_parse (BextChunk_init\<lparr>valid := True\<rparr>)
        (py_bytes ''bext'' @ [0x5A, 2, 0, 0] @ replicate 380 0) 0) = Inr True"
  by (simp add: BextChunk_parse_def BextChunk_init_def eval_defs)

section \<open>DataChunk with a truncated payload\<close>

text \<open>
  Claim C6: on the buffer \<open>"data" + u32(10)\<close> followed by only 8 payload bytes,
  \<open>DataChunk.parse\<close> at offset 0 gives a record with the flag false whose \<open>data\<close> is
  the 8-byte span that is present.

  As amended: the flag is false and \<open>data\<close> is the empty span. \<open>get_bytes\<close> returns
  \<open>b""\<close> whenever the requested span does not fit the buffer; it never returns a
  shorter span.
\<close>

theorem data_truncated_payload_is_empty:
  "length payload = 8 \<Longrightarrow>
   DataChunk_parse DataChunk_init (py_bytes ''data'' @ [10, 0, 0, 0] @ payload) 0 =
     Inr \<lparr>chunk_name = py_str ''data'', chunk_type = Some DATA, chunk_size = 10,
          valid = False, data = []\<rparr>"
  by (simp add: DataChunk_parse_def DataChunk_init_def eval_defs)

theorem data_truncated_payload_is_empty_witness:
  "length [1, 2, 3, 4, 5, 6, 7, 8 :: byte] = 8
   \<and> DataChunk_parse DataChunk_init
       (py_bytes ''data'' @ [10, 0, 0, 0] @ [1, 2, 3, 4, 5, 6, 7, 8]) 0 =
     Inr \<lparr>chunk_name = py_str ''data'', chunk_type = Some DATA, chunk_size = 10,
          valid = False, data = []\<rparr>"
proof -
  have h: "length [1, 2, 3, 4, 5, 6, 7, 8 :: byte] = 8" by simp
  show ?thesis using h data_truncated_payload_is_empty [OF h] by simp
qed

text \<open>The \<open>data\<close> field is not the 8 bytes that are present.\<close>

theorem data_truncated_payload_counterexample:
  "map_sum id data
     (DataChunk_parse DataChunk_init
        (py_bytes ''data'' @ [10, 0, 0, 0] @ [1, 2, 3, 4, 5, 6, 7, 8]) 0)
   \<noteq> Inr [1, 2, 3, 4, 5, 6, 7, 8]"
  by (simp add: DataChunk_parse_def DataChunk_init_def eval_defs)

section \<open>StandardPCMFormatChunk on a PCM header\<close>

text \<open>
  Claim C7: on the 24-byte buffer \<open>"fmt " + u32(16)\<close> followed by the 16 bytes of
  format tag 1, 2 channels, sample rate 44100, byte rate 176400, block align 4 and
  16 bits per sample, \<open>StandardPCMFormatChunk.parse\<close> at offset 0 gives a record with
  the flag true whose accessors return exactly those values.

  The accessors return exactly those values and every check passes, but the flag of the
  result is \<open>False\<close>, as it was from the constructor on.
\<close>

theorem standard_fmt_decode_is_invalid:
  "case StandardPCMFormatChunk_parse StandardPCMFormatChunk_init
          (py_bytes ''fmt '' @ [16, 0, 0, 0]
             @ [1, 0, 2, 0, 0x44, 0xAC, 0, 0, 0x10, 0xB1, 2, 0, 4, 0, 16, 0]) 0 of
     Inl e \<Rightarrow> False
   | Inr c \<Rightarrow>
       valid c = False \<and> chunk_name c = py_str ''fmt '' \<and> chunk_type c = Some STANDARD_FMT
       \<and> chunk_size c = 16 \<and> format_tag c = PCM \<and> channels c = 2 \<and> sample_rate c = 44100
       \<and> byte_rate c = 176400 \<and> block_align c = 4 \<and> bits_per_sample c = 16"
  by (simp add: StandardPCMFormatChunk_parse_def StandardPCMFormatChunk_init_def
        BaseFormatChunk_parse_def BaseFormatChunk_init_def get_format_tag_def channels_def
        sample_rate_def byte_rate_def block_align_def bits_per_sample_def eval_defs)

section \<open>The span read by parse_int\<close>

text \<open>
  Claim C8: \<open>parse_int\<close> decodes exactly the \<open>length\<close> bytes beginning at the start
  position, never more and never fewer, and a zero-length span decodes as 0.

  \<open>parse_int\<close> slices \<open>byte_seq[start_pos:length]\<close>: its parameter \<open>length\<close> is the end
  index of the slice. With start position 1 and length 2 on the bytes 1, 2, 3, 4 it reads
  the single byte 2, where the two bytes from position 1 on have the value 770; with
  start position 2 and length 2 it reads nothing.
\<close>

theorem parse_int_length_is_an_end_index:
  "parse_int [1, 2, 3, 4] 1 2 little False = 2
   \<and> from_bytes (take 2 (drop 1 [1, 2, 3, 4])) little False = 770
   \<and> parse_int [1, 2, 3, 4] 2 2 little False = 0"
  by (simp add: parse_int_def from_bytes_def py_slice_def slice_index_def)

section \<open>Buffers too short for a name\<close>

text \<open>
  Claim C9: for every buffer and offset such that fewer than 4 bytes remain at the
  offset, the classifier returns the tag \<open>ChunkType.UNKNOWN\<close> and the name \<open>""\<close>.
\<close>

theorem short_buffer_is_unknown:
  "chunk_start_pos + 4 > int (length byte_seq) \<Longrightarrow>
   get_chunk_type byte_seq chunk_start_pos = Inr (Some UNKNOWN)
   \<and> get_chunk_name byte_seq chunk_start_pos = Inr (py_str '''')"
  by (simp add: get_chunk_type_def get_chunk_name_def py_str_def)

theorem short_buffer_is_unknown_witness:
  "(0::int) + 4 > int (length [82, 73, 70 :: byte])
   \<and> get_chunk_type [82, 73, 70] 0 = Inr (Some UNKNOWN)
   \<and> get_chunk_name [82, 73, 70] 0 = Inr (py_str '''')"
proof -
  have h: "(0::int) + 4 > int (length [82, 73, 70 :: byte])" by simp
  show ?thesis using h short_buffer_is_unknown [OF h] by simp
qed

section \<open>Buffers with a name and no size\<close>

text \<open>
  Claim C10: for every buffer and offset with at least 4 but fewer than 8 bytes
  remaining, \<open>get_chunk_size\<close> returns \<open>-1\<close>, and \<open>get_chunk_type\<close> returns \<open>RIFF\<close>,
  \<open>DATA\<close> or \<open>BEXT\<close> when the name is \<open>"RIFF"\<close>, \<open>"data"\<close> or \<open>"bext"\<close>, while the
  name \<open>"fmt "\<close> classifies as \<open>UNKNOWN\<close>, since \<open>-1\<close> is none of 16, 18 and 40.
\<close>

theorem name_without_size:
  "chunk_start_pos + 4 \<le> int (length byte_seq) \<Longrightarrow>
   int (length byte_seq) < chunk_start_pos + 8 \<Longrightarrow>
   get_chunk_size byte_seq chunk_start_pos = - 1
   \<and> (get_chunk_name byte_seq chunk_start_pos = Inr (py_str ''RIFF'')
        \<longrightarrow> get_chunk_type byte_seq chunk_start_pos = Inr (Some RIFF))
   \<and> (get_chunk_name byte_seq chunk_start_pos = Inr (py_str ''data'')
        \<longrightarrow> get_chunk_type byte_seq chunk_start_pos = Inr (Some DATA))
   \<and> (get_chunk_name byte_seq chunk_start_pos = Inr (py_str ''bext'')
        \<longrightarrow> get_chunk_type byte_seq chunk_start_pos = Inr (Some BEXT))
   \<and> (get_chunk_name byte_seq chunk_start_pos = Inr (py_str ''fmt '')
        \<longrightarrow> get_chunk_type byte_seq chunk_start_pos = Inr (Some UNKNOWN))"
  by (simp add: get_chunk_type_def get_chunk_size_def py_str_def)

theorem name_without_size_witness:
  "(get_chunk_size (py_bytes ''RIFF'' @ [4]) 0 = - 1
      \<and> get_chunk_type (py_bytes ''RIFF'' @ [4]) 0 = Inr (Some RIFF))
   \<and> (get_chunk_size (py_bytes ''data'' @ [4, 0]) 0 = - 1
      \<and> get_chunk_type (py_bytes ''data'' @ [4, 0]) 0 = Inr (Some DATA))
   \<and> (get_chunk_size (py_bytes ''bext'') 0 = - 1
      \<and> get_chunk_type (py_bytes ''bext'') 0 = Inr (Some BEXT))
   \<and> (get_chunk_size (py_bytes ''fmt '' @ [16, 0, 0]) 0 = - 1
      \<and> get_chunk_type (py_bytes ''fmt '' @ [16, 0, 0]) 0 = Inr (Some UNKNOWN))"
proof -
  have n1: "get_chunk_name (py_bytes ''RIFF'' @ [4]) 0 = Inr (py_str ''RIFF'')"
    and n2: "get_chunk_name (py_bytes ''data'' @ [4, 0]) 0 = Inr (py_str ''data'')"
    and n3: "get_chunk_name (py_bytes ''bext'') 0 = Inr (py_str ''bext'')"
    and n4: "get_chunk_name (py_bytes ''fmt '' @ [16, 0, 0]) 0 = Inr (py_str ''fmt '')"
    by (simp_all add: get_chunk_name_def py_slice_def slice_index_def py_bytes_def py_str_def)
  have l1: "(0::int) + 4 \<le> int (length (py_bytes ''RIFF'' @ [4]))"
       "int (length (py_bytes ''RIFF'' @ [4])) < 0 + 8"
    and l2: "(0::int) + 4 \<le> int (length (py_bytes ''data'' @ [4, 0]))"
       "int (length (py_bytes ''data'' @ [4, 0])) < 0 + 8"
    and l3: "(0::int) + 4 \<le> int (length (py_bytes ''bext''))"
       "int (length (py_bytes ''bext'')) < 0 + 8"
    and l4: "(0::int) + 4 \<le> int (length (py_bytes ''fmt '' @ [16, 0, 0]))"
       "int (length (py_bytes ''fmt '' @ [16, 0, 0])) < 0 + 8"
    by (simp_all add: py_bytes_def)
  show ?thesis
    using name_without_size [OF l1] name_without_size [OF l2]
      name_without_size [OF l3] name_without_size [OF l4] n1 n2 n3 n4
    by simp
qed

end
